theory Spec2Isabelle
  imports Main "HOL-Library.Word"
begin

section \<open>JavaScript strings\<close>

text \<open>
  A JavaScript string is a sequence of UTF-16 code units. The labels of the user
  interface are Korean, so the literals of the source are written as lists of code
  units; ASCII literals are injected with \<open>of_ascii\<close>.
\<close>

type_synonym code_unit = "16 word"
type_synonym jsstring = "code_unit list"

definition of_ascii :: "string \<Rightarrow> jsstring" where
  "of_ascii s = map (\<lambda>c. of_nat (of_char c)) s"

text \<open>
  \<open>LineTerminator\<close> of ECMAScript: the code units that the regular expression atom
  \<open>.\<close> does not match.
\<close>

definition isLineTerminator :: "code_unit \<Rightarrow> bool" where
  "isLineTerminator c \<longleftrightarrow> c \<in> {0x000A, 0x000D, 0x2028, 0x2029}"

text \<open>
  The code units stripped by \<open>String.prototype.trim\<close> and matched by the regular
  expression class \<open>\s\<close>: \<open>WhiteSpace\<close> together with \<open>LineTerminator\<close>.
\<close>

definition isWhiteSpace :: "code_unit \<Rightarrow> bool" where
  "isWhiteSpace c \<longleftrightarrow>
     c \<in> {0x0009, 0x000A, 0x000B, 0x000C, 0x000D, 0x0020, 0x00A0, 0x1680,
          0x2028, 0x2029, 0x202F, 0x205F, 0x3000, 0xFEFF}
     \<or> (0x2000 \<le> c \<and> c \<le> 0x200A)"

text \<open>The regular expression class \<open>\d\<close>.\<close>

definition isDigit :: "code_unit \<Rightarrow> bool" where
  "isDigit c \<longleftrightarrow> 0x0030 \<le> c \<and> c \<le> 0x0039"

definition trim :: "jsstring \<Rightarrow> jsstring" where
  "trim s = rev (dropWhile isWhiteSpace (rev (dropWhile isWhiteSpace s)))"

definition startsWith :: "jsstring \<Rightarrow> jsstring \<Rightarrow> bool" where
  "startsWith s p \<longleftrightarrow> take (length p) s = p"

text \<open>\<open>s.slice(n)\<close> for a non-negative \<open>n\<close>.\<close>

definition slice :: "jsstring \<Rightarrow> nat \<Rightarrow> jsstring" where
  "slice s n = drop n s"

text \<open>
  \<open>s.split(sep)\<close> for a separator of one code unit: the result is never empty, and
  the empty string splits into one empty piece.
\<close>

fun split :: "code_unit \<Rightarrow> jsstring \<Rightarrow> jsstring list" where
  "split sep [] = [[]]"
| "split sep (c # cs) =
     (if c = sep then [] # split sep cs
      else (case split sep cs of
              [] \<Rightarrow> [[c]]
            | piece # pieces \<Rightarrow> (c # piece) # pieces))"

text \<open>\<open>pieces.join(sep)\<close>.\<close>

fun join :: "jsstring \<Rightarrow> jsstring list \<Rightarrow> jsstring" where
  "join sep [] = []"
| "join sep [p] = p"
| "join sep (p # q # ps) = p @ sep @ join sep (q # ps)"

text \<open>Truthiness of a string, and of a nullable string.\<close>

definition truthy :: "jsstring \<Rightarrow> bool" where
  "truthy s \<longleftrightarrow> s \<noteq> []"

fun truthy_opt :: "jsstring option \<Rightarrow> bool" where
  "truthy_opt None = False"
| "truthy_opt (Some s) = truthy s"

section \<open>Types of the pipeline research API (types/index.ts)\<close>

datatype ResearchStatus = pending | running | completed | failed | cancelled

datatype json =
    JNull
  | JBool bool
  | JNumber int
  | JString jsstring
  | JArray "json list"
  | JObject "(string \<times> json) list"

type_synonym jsobject = "(string \<times> json) list"

record ResearchProgress =
  event :: jsstring
  stage :: jsstring
  details :: jsobject

record Report =
  report_content :: jsstring
  executive_summary :: jsstring
  main_topic :: jsstring
  research_objective :: jsstring
  generated_at :: jsstring

record Statistics =
  total_topics :: int
  completed_topics :: int
  failed_topics :: int
  total_tool_calls :: int

record ResearchResult =
  report :: "Report option"
  statistics :: "Statistics option"

record ResearchStatusResponse =
  research_id :: jsstring
  status :: ResearchStatus
  topic :: jsstring
  created_at :: jsstring
  started_at :: "jsstring option"
  completed_at :: "jsstring option"
  current_stage :: "jsstring option"
  progress :: "ResearchProgress option"
  error :: "jsstring option"
  result :: "ResearchResult option"

text \<open>
  The union \<open>WSEvent\<close>. The payload \<open>data\<close> of \<open>current_state\<close> and \<open>update\<close> is
  declared present; the handler tests it all the same, so the parsed member is kept
  as an option, \<open>None\<close> standing for a missing or null member.
\<close>

datatype WSEvent =
    WSConnectedEvent jsstring
  | WSCurrentStateEvent "ResearchStatusResponse option"
  | WSUpdateEvent "ResearchStatusResponse option"
  | WSHeartbeatEvent
  | WSFinalEvent ResearchStatus "ResearchResult option" "jsstring option"
  | WSErrorEvent jsstring

text \<open>The discriminant \<open>type\<close> of an event.\<close>

fun ws_type :: "WSEvent \<Rightarrow> string" where
  "ws_type (WSConnectedEvent rid) = ''connected''"
| "ws_type (WSCurrentStateEvent d) = ''current_state''"
| "ws_type (WSUpdateEvent d) = ''update''"
| "ws_type WSHeartbeatEvent = ''heartbeat''"
| "ws_type (WSFinalEvent s r e) = ''final''"
| "ws_type (WSErrorEvent m) = ''error''"

section \<open>Status labels\<close>

text \<open>\<open>getStatusLabel\<close> of the research list page: a lookup in a table of labels.\<close>

definition labels :: "(ResearchStatus \<times> jsstring) list" where
  "labels =
     [(pending, [0xB300, 0xAE30, 0xC911]),
      (running, [0xC9C4, 0xD589, 0xC911]),
      (completed, [0xC644, 0xB8CC]),
      (failed, [0xC2E4, 0xD328]),
      (cancelled, [0xCDE8, 0xC18C, 0xB428])]"

text \<open>\<open>labels[status]\<close>: \<open>None\<close> is JavaScript's \<open>undefined\<close> for a missing key.\<close>

definition getStatusLabel :: "ResearchStatus \<Rightarrow> jsstring option" where
  "getStatusLabel st = map_of labels st"

text \<open>\<open>StatusBadge\<close> of the progress component: its table \<open>config\<close> and the lookup.\<close>

record BadgeConfig =
  label :: jsstring
  className :: string

definition config :: "(ResearchStatus \<times> BadgeConfig) list" where
  "config =
     [(pending, \<lparr>label = [0xB300, 0xAE30, 0xC911],
         className = ''bg-gray-100 text-gray-800 dark:bg-gray-700 dark:text-gray-200''\<rparr>),
      (running, \<lparr>label = [0xC9C4, 0xD589, 0xC911],
         className = ''bg-blue-100 text-blue-800 dark:bg-blue-900 dark:text-blue-200''\<rparr>),
      (completed, \<lparr>label = [0xC644, 0xB8CC],
         className = ''bg-green-100 text-green-800 dark:bg-green-900 dark:text-green-200''\<rparr>),
      (failed, \<lparr>label = [0xC2E4, 0xD328],
         className = ''bg-red-100 text-red-800 dark:bg-red-900 dark:text-red-200''\<rparr>),
      (cancelled, \<lparr>label = [0xCDE8, 0xC18C, 0xB428],
         className = ''bg-yellow-100 text-yellow-800 dark:bg-yellow-900 dark:text-yellow-200''\<rparr>)]"

text \<open>
  \<open>const { label, className } = config[status]\<close>: destructuring \<open>undefined\<close> raises
  a TypeError, which is \<open>None\<close> here; otherwise the badge shows the label.
\<close>

definition StatusBadge :: "ResearchStatus \<Rightarrow> BadgeConfig option" where
  "StatusBadge st = map_of config st"

section \<open>The progress component (ResearchProgress)\<close>

text \<open>
  What the component renders, as far as the job's status and error decide it: the
  status badge of the header and the error message block at the bottom of the panel.
  The block is rendered under \<open>error && status === 'failed'\<close> and shows \<open>error\<close>
  as a text node. The stage list and the progress bar are not part of this view.
\<close>

record ProgressView =
  badge :: "BadgeConfig option"
  errorMessage :: "jsstring option"

definition ResearchProgress_component ::
  "ResearchStatus \<Rightarrow> jsstring option \<Rightarrow> ResearchProgress option \<Rightarrow> jsstring option
     \<Rightarrow> ProgressView" where
  "ResearchProgress_component st currentStage prog err =
     \<lparr>badge = StatusBadge st,
      errorMessage = (if truthy_opt err \<and> st = failed then err else None)\<rparr>"

section \<open>The research detail page (app/research/[id]/page.tsx)\<close>

text \<open>The \<open>readyState\<close> of the page's WebSocket, and \<open>ws.close()\<close>.\<close>

datatype ReadyState = CONNECTING | OPEN | CLOSING | CLOSED

fun ws_close :: "ReadyState \<Rightarrow> ReadyState" where
  "ws_close CLOSING = CLOSING"
| "ws_close CLOSED = CLOSED"
| "ws_close CONNECTING = CLOSING"
| "ws_close OPEN = CLOSING"

text \<open>What the message handler writes to the console.\<close>

datatype LogEntry = LogConnected jsstring | LogParseError

text \<open>
  The state of the page: the four \<open>useState\<close> cells (\<open>pageError\<close> is the cell the
  source calls \<open>error\<close>), the socket held by the effect, and the console.
\<close>

record DetailState =
  research :: "ResearchStatusResponse option"
  loading :: bool
  pageError :: "jsstring option"
  wsConnected :: bool
  readyState :: ReadyState
  console :: "LogEntry list"

text \<open>The \<open>switch (data.type)\<close> of \<open>ws.onmessage\<close>, in the order of the source.\<close>

fun handle_event :: "WSEvent \<Rightarrow> DetailState \<Rightarrow> DetailState" where
  "handle_event (WSConnectedEvent rid) st = st\<lparr>console := console st @ [LogConnected rid]\<rparr>"
| "handle_event (WSCurrentStateEvent d) st =
     (case d of Some snapshot \<Rightarrow> st\<lparr>research := Some snapshot\<rparr> | None \<Rightarrow> st)"
| "handle_event (WSUpdateEvent d) st =
     (case d of Some snapshot \<Rightarrow> st\<lparr>research := Some snapshot\<rparr> | None \<Rightarrow> st)"
| "handle_event (WSFinalEvent s r e) st =
     st\<lparr>research :=
          (case research st of
             Some prev \<Rightarrow> Some (prev\<lparr>status := s, result := r, error := e\<rparr>)
           | None \<Rightarrow> None),
        readyState := ws_close (readyState st)\<rparr>"
| "handle_event (WSErrorEvent m) st = st\<lparr>pageError := Some m\<rparr>"
| "handle_event WSHeartbeatEvent st = st"

text \<open>
  \<open>ws.onmessage\<close>: the argument is the outcome of \<open>JSON.parse(event.data)\<close>, \<open>None\<close>
  when it throws; the \<open>catch\<close> branch only logs.
\<close>

fun onmessage :: "WSEvent option \<Rightarrow> DetailState \<Rightarrow> DetailState" where
  "onmessage (Some data) st = handle_event data st"
| "onmessage None st = st\<lparr>console := console st @ [LogParseError]\<rparr>"

text \<open>
  The browser's side of the socket: a message that arrives is handed to \<open>onmessage\<close>
  only while the socket is \<open>OPEN\<close>, and is discarded once \<open>close()\<close> has been called.
\<close>

definition deliver :: "DetailState \<Rightarrow> WSEvent option \<Rightarrow> DetailState" where
  "deliver st m = (if readyState st = OPEN then onmessage m st else st)"

text \<open>\<open>a || b\<close> for a nullable string \<open>a\<close>.\<close>

fun or_else :: "jsstring option \<Rightarrow> jsstring \<Rightarrow> jsstring" where
  "or_else None b = b"
| "or_else (Some a) b = (if truthy a then a else b)"

text \<open>
  What the page renders. The report column shows the report viewer when
  \<open>research.result\<close> is set, a spinner with the current stage while the job is
  active, and a "no report yet" notice otherwise. The three date cards are left out.
\<close>

datatype ReportPanel =
    ReportViewerPanel ResearchResult
  | InProgressPlaceholder jsstring
  | NotGeneratedPlaceholder

record DetailView =
  heading :: jsstring
  idBadge :: jsstring
  liveIndicator :: bool
  cancelButton :: bool
  errorBanner :: "jsstring option"
  stageCard :: jsstring
  progressPanel :: ProgressView
  reportPanel :: ReportPanel

datatype PageView =
    LoadingView
  | ErrorView jsstring
  | NotFoundView
  | ResearchView DetailView

definition isActive :: "ResearchStatusResponse \<Rightarrow> bool" where
  "isActive r \<longleftrightarrow> status r = pending \<or> status r = running"

definition ResearchDetailPage :: "DetailState \<Rightarrow> PageView" where
  "ResearchDetailPage st =
     (if loading st \<and> research st = None then LoadingView
      else if truthy_opt (pageError st) \<and> research st = None
        then ErrorView (or_else (pageError st) [])
      else (case research st of
              None \<Rightarrow> NotFoundView
            | Some r \<Rightarrow>
                ResearchView
                  \<lparr>heading = topic r,
                   idBadge = research_id r,
                   liveIndicator = wsConnected st,
                   cancelButton = isActive r,
                   errorBanner = (if truthy_opt (pageError st) then pageError st else None),
                   stageCard = or_else (current_stage r) [0xB300, 0xAE30, 0x0020, 0xC911],
                   progressPanel =
                     ResearchProgress_component (status r) (current_stage r) (progress r) (error r),
                   reportPanel =
                     (case result r of
                        Some res \<Rightarrow> ReportViewerPanel res
                      | None \<Rightarrow>
                          if isActive r
                          then InProgressPlaceholder
                                 (or_else (current_stage r)
                                    [0xCD08, 0xAE30, 0xD654, 0x0020, 0xC911])
                          else NotGeneratedPlaceholder)\<rparr>))"

section \<open>The research list page and its new-research form (app/research/page.tsx)\<close>

text \<open>
  The form data, with the fields of the object literal that initialises it
  (\<open>form_topic\<close> and \<open>form_context\<close> are the fields \<open>topic\<close> and \<open>context\<close>).
\<close>

record PipelineResearchRequest =
  form_topic :: jsstring
  symbols :: "jsstring list"
  market :: jsstring
  form_context :: jsstring
  max_topics :: int
  language :: jsstring

text \<open>
  The state of the page as far as the form goes: \<open>listError\<close> is the cell the source
  calls \<open>error\<close>. The list of earlier researches and its loading flag are left out.
\<close>

record ListState =
  formData :: PipelineResearchRequest
  symbolInput :: jsstring
  showNewForm :: bool
  submitting :: bool
  listError :: "jsstring option"

text \<open>
  The first render: \<open>symbolParam\<close> and \<open>marketParam\<close> are \<open>searchParams.get('symbol')\<close> and
  \<open>searchParams.get('market')\<close>. The topic template appends the Korean for
  "stock analysis and investment outlook" to the symbol.
\<close>

definition initialSymbol :: "jsstring option \<Rightarrow> jsstring" where
  "initialSymbol symbolParam = or_else symbolParam []"

definition initialMarket :: "jsstring option \<Rightarrow> jsstring" where
  "initialMarket marketParam = or_else marketParam (of_ascii ''US'')"

definition initial_state :: "jsstring option \<Rightarrow> jsstring option \<Rightarrow> ListState" where
  "initial_state symbolParam marketParam =
     \<lparr>formData =
        \<lparr>form_topic =
           (if truthy (initialSymbol symbolParam)
            then initialSymbol symbolParam
                 @ [0x0020, 0xC885, 0xBAA9, 0x0020, 0xBD84, 0xC11D, 0x0020, 0xBC0F, 0x0020,
                    0xD22C, 0xC790, 0x0020, 0xC804, 0xB9DD]
            else []),
         symbols = [],
         market = initialMarket marketParam,
         form_context = [],
         max_topics = 10,
         language = of_ascii ''ko''\<rparr>,
      symbolInput = initialSymbol symbolParam,
      showNewForm = truthy (initialSymbol symbolParam),
      submitting = False,
      listError = None\<rparr>"

text \<open>
  The value of \<open><input type="range" min="3" max="20">\<close> after the user moves the
  slider towards \<open>v\<close>: the control keeps its value between \<open>min\<close> and \<open>max\<close>, in steps
  of one.
\<close>

definition range_input :: "int \<Rightarrow> int \<Rightarrow> int \<Rightarrow> int" where
  "range_input lo hi v = (if v < lo then lo else if hi < v then hi else v)"

text \<open>
  \<open>{...formData}\<close>: the own properties of the form data, in the order of the literal.
\<close>

definition spread_formData :: "PipelineResearchRequest \<Rightarrow> jsobject" where
  "spread_formData fd =
     [(''topic'', JString (form_topic fd)),
      (''symbols'', JArray (map JString (symbols fd))),
      (''market'', JString (market fd)),
      (''context'', JString (form_context fd)),
      (''max_topics'', JNumber (max_topics fd)),
      (''language'', JString (language fd))]"

text \<open>A property written after a spread: it replaces the property in place, or is added last.\<close>

fun obj_set :: "string \<Rightarrow> json \<Rightarrow> jsobject \<Rightarrow> jsobject" where
  "obj_set k v [] = [(k, v)]"
| "obj_set k v ((k', v') # ps) =
     (if k = k' then (k, v) # ps else (k', v') # obj_set k v ps)"

text \<open>\<open>symbolInput.split(',').map((s) => s.trim()).filter(Boolean)\<close>.\<close>

definition submitted_symbols :: "jsstring \<Rightarrow> jsstring list" where
  "submitted_symbols inp = filter truthy (map trim (split 0x002C inp))"

text \<open>
  \<open>handleSubmit\<close> up to the call of \<open>pipelineApi.start\<close>: the new state, and the object
  passed to \<open>start\<close> as the body of \<open>POST /research\<close>, or \<open>None\<close> when the handler
  returns without calling the API.
\<close>

definition handleSubmit :: "ListState \<Rightarrow> ListState \<times> jsobject option" where
  "handleSubmit st =
     (if \<not> truthy (trim (form_topic (formData st))) then (st, None)
      else (st\<lparr>submitting := True, listError := None\<rparr>,
            Some (obj_set ''symbols'' (JArray (map JString (submitted_symbols (symbolInput st))))
                    (spread_formData (formData st)))))"

text \<open>The \<open>disabled\<close> attribute of the submit button.\<close>

definition submit_disabled :: "ListState \<Rightarrow> bool" where
  "submit_disabled st \<longleftrightarrow> submitting st \<or> \<not> truthy (trim (form_topic (formData st)))"

text \<open>
  What can happen to the form: the \<open>onChange\<close> handlers of its controls, the two
  buttons that show and hide it, a submission, and the failure of a started request
  (\<open>setError(error); setSubmitting(false)\<close>).
\<close>

datatype PageEvent =
    ChangeTopic jsstring
  | ChangeSymbolInput jsstring
  | ChangeMarket jsstring
  | ChangeLanguage jsstring
  | ChangeContext jsstring
  | ChangeMaxTopics int
  | ToggleNewForm
  | CancelNewForm
  | Submit
  | StartFailed jsstring

fun page_step :: "ListState \<Rightarrow> PageEvent \<Rightarrow> ListState" where
  "page_step st (ChangeTopic v) = st\<lparr>formData := (formData st)\<lparr>form_topic := v\<rparr>\<rparr>"
| "page_step st (ChangeSymbolInput v) = st\<lparr>symbolInput := v\<rparr>"
| "page_step st (ChangeMarket v) = st\<lparr>formData := (formData st)\<lparr>market := v\<rparr>\<rparr>"
| "page_step st (ChangeLanguage v) = st\<lparr>formData := (formData st)\<lparr>language := v\<rparr>\<rparr>"
| "page_step st (ChangeContext v) = st\<lparr>formData := (formData st)\<lparr>form_context := v\<rparr>\<rparr>"
| "page_step st (ChangeMaxTopics v) =
     st\<lparr>formData := (formData st)\<lparr>max_topics := range_input 3 20 v\<rparr>\<rparr>"
| "page_step st ToggleNewForm = st\<lparr>showNewForm := \<not> showNewForm st\<rparr>"
| "page_step st CancelNewForm = st\<lparr>showNewForm := False\<rparr>"
| "page_step st Submit = fst (handleSubmit st)"
| "page_step st (StartFailed e) = st\<lparr>listError := Some e, submitting := False\<rparr>"

section \<open>The report viewer's Markdown renderer (components/ReportViewer.tsx)\<close>

subsection \<open>Inline markup\<close>

text \<open>
  The three replacements of \<open>renderInlineMarkdown\<close> have the shape
  \<open>text.replace(/D(.+?)D/g, tagOpen + '$1' + tagClose)\<close> for a delimiter \<open>D\<close>. The group
  \<open>(.+?)\<close> takes at least one code unit, none of them a line terminator, and as few
  as possible: \<open>find_close\<close> looks for the first closing delimiter behind the group's
  first code unit and returns the group and the text behind that delimiter.
\<close>

fun find_close :: "jsstring \<Rightarrow> jsstring \<Rightarrow> jsstring \<Rightarrow> (jsstring \<times> jsstring) option" where
  "find_close d acc [] = (if startsWith [] d then Some (acc, []) else None)"
| "find_close d acc (c # cs) =
     (if startsWith (c # cs) d then Some (acc, drop (length d) (c # cs))
      else if isLineTerminator c then None
      else find_close d (acc @ [c]) cs)"

definition lazy_group :: "jsstring \<Rightarrow> jsstring \<Rightarrow> (jsstring \<times> jsstring) option" where
  "lazy_group d s =
     (case s of
        [] \<Rightarrow> None
      | c # cs \<Rightarrow> if isLineTerminator c then None else find_close d [c] cs)"

text \<open>
  The global replacement scans from the left: where the pattern matches, the match
  is replaced and the scan goes on behind it; elsewhere one code unit is copied.
\<close>

function replace_delimited :: "jsstring \<Rightarrow> jsstring \<Rightarrow> jsstring \<Rightarrow> jsstring \<Rightarrow> jsstring" where
  "replace_delimited d tagOpen tagClose [] = []"
| "replace_delimited d tagOpen tagClose (c # cs) =
     (if startsWith (c # cs) d
      then (case lazy_group d (drop (length d) (c # cs)) of
              Some (g, rest) \<Rightarrow> tagOpen @ g @ tagClose @ replace_delimited d tagOpen tagClose rest
            | None \<Rightarrow> c # replace_delimited d tagOpen tagClose cs)
      else c # replace_delimited d tagOpen tagClose cs)"
  by pat_completeness auto
termination
proof (relation "measure (\<lambda>(d, tagOpen, tagClose, s). length s)")
  show "wf (measure (\<lambda>(d, tagOpen, tagClose, s). length s))" by simp
next
  fix d tagOpen tagClose :: jsstring and c cs x2 g rest
  assume found: "lazy_group d (drop (length d) (c # cs)) = Some x2" and pair: "(g, rest) = x2"
  have shorter: "find_close d acc s = Some (g, rest) \<Longrightarrow> length rest \<le> length s" for acc s
  proof (induction s arbitrary: acc)
    case Nil
    then show ?case by (simp split: if_splits)
  next
    case (Cons a as)
    show ?case
    proof (cases "startsWith (a # as) d")
      case True
      with Cons.prems show ?thesis by auto
    next
      case False
      with Cons.prems have "find_close d (acc @ [a]) as = Some (g, rest)"
        by (simp split: if_splits)
      from Cons.IH [OF this] show ?thesis by simp
    qed
  qed
  from found pair obtain a as
    where dropped: "drop (length d) (c # cs) = a # as"
      and closed: "find_close d [a] as = Some (g, rest)"
    by (auto simp add: lazy_group_def split: list.splits if_splits)
  from shorter [OF closed] have "length rest \<le> length as" .
  moreover have "length (drop (length d) (c # cs)) = Suc (length as)"
    unfolding dropped by simp
  ultimately have "length rest < length (drop (length d) (c # cs))"
    by linarith
  then show "((d, tagOpen, tagClose, rest), d, tagOpen, tagClose, c # cs)
               \<in> measure (\<lambda>(d, tagOpen, tagClose, s). length s)"
    by simp
qed simp_all

definition renderInlineMarkdown :: "jsstring \<Rightarrow> jsstring" where
  "renderInlineMarkdown text0 =
     (let text1 = replace_delimited (of_ascii ''**'')
                    (of_ascii ''<strong>'') (of_ascii ''</strong>'') text0;
          text2 = replace_delimited (of_ascii ''*'') (of_ascii ''<em>'') (of_ascii ''</em>'') text1
      in replace_delimited (of_ascii ''`'')
           (of_ascii ''<code class='' @ [0x0022]
              @ of_ascii ''bg-gray-100 dark:bg-gray-900 px-1 rounded'' @ [0x0022] @ of_ascii ''>'')
           (of_ascii ''</code>'') text2)"

subsection \<open>Lines\<close>

text \<open>
  \<open>line.match(/^(\d+)\.\s(.+)/)\<close>: the second group when the line matches, that is
  the longest run without a line terminator that follows the digits, the dot and one
  white space code unit; the run must not be empty.
\<close>

definition numberedMatch :: "jsstring \<Rightarrow> jsstring option" where
  "numberedMatch line =
     (if takeWhile isDigit line = [] then None
      else (case dropWhile isDigit line of
              dot # sp # tail \<Rightarrow>
                if dot = 0x002E \<and> isWhiteSpace sp
                   \<and> takeWhile (\<lambda>c. \<not> isLineTerminator c) tail \<noteq> []
                then Some (takeWhile (\<lambda>c. \<not> isLineTerminator c) tail)
                else None
            | _ \<Rightarrow> None))"

text \<open>
  The elements the renderer produces, each with its \<open>key\<close> (the index of the line
  that pushed it). The text of a list item or a paragraph is the HTML that
  \<open>renderInlineMarkdown\<close> returns.
\<close>

datatype Element =
    Pre nat jsstring
  | H1 nat jsstring
  | H2 nat jsstring
  | H3 nat jsstring
  | Li nat jsstring
  | LiDecimal nat jsstring
  | Br nat
  | Para nat jsstring

text \<open>The variables of \<open>MarkdownRenderer\<close> that the callback of \<open>forEach\<close> updates.\<close>

record RenderState =
  elements :: "Element list"
  inCodeBlock :: bool
  codeContent :: "jsstring list"
  codeLanguage :: jsstring

definition initial_render :: RenderState where
  "initial_render = \<lparr>elements = [], inCodeBlock = False, codeContent = [], codeLanguage = []\<rparr>"

definition isFence :: "jsstring \<Rightarrow> bool" where
  "isFence line \<longleftrightarrow> startsWith line (of_ascii ''```'')"

definition push :: "Element \<Rightarrow> RenderState \<Rightarrow> RenderState" where
  "push el st = st\<lparr>elements := elements st @ [el]\<rparr>"

text \<open>The callback \<open>(line, index) => ...\<close>, with the tests in the order of the source.\<close>

definition render_line :: "RenderState \<Rightarrow> jsstring \<Rightarrow> nat \<Rightarrow> RenderState" where
  "render_line st line index =
     (if isFence line then
        (if inCodeBlock st
         then (push (Pre index (join [0x000A] (codeContent st))) st)
                \<lparr>codeContent := [], inCodeBlock := False\<rparr>
         else st\<lparr>inCodeBlock := True, codeLanguage := slice line 3\<rparr>)
      else if inCodeBlock st then st\<lparr>codeContent := codeContent st @ [line]\<rparr>
      else if startsWith line (of_ascii ''# '') then push (H1 index (slice line 2)) st
      else if startsWith line (of_ascii ''## '') then push (H2 index (slice line 3)) st
      else if startsWith line (of_ascii ''### '') then push (H3 index (slice line 4)) st
      else if startsWith line (of_ascii ''- '') \<or> startsWith line (of_ascii ''* '')
        then push (Li index (renderInlineMarkdown (slice line 2))) st
      else (case numberedMatch line of
              Some item \<Rightarrow> push (LiDecimal index (renderInlineMarkdown item)) st
            | None \<Rightarrow>
                if trim line = [] then push (Br index) st
                else push (Para index (renderInlineMarkdown line)) st))"

text \<open>\<open>lines.forEach\<close>, from the index \<open>index\<close> on.\<close>

fun forEach_line :: "RenderState \<Rightarrow> nat \<Rightarrow> jsstring list \<Rightarrow> RenderState" where
  "forEach_line st index [] = st"
| "forEach_line st index (line # rest) = forEach_line (render_line st line index) (Suc index) rest"

definition MarkdownRenderer :: "jsstring \<Rightarrow> Element list" where
  "MarkdownRenderer content = elements (forEach_line initial_render 0 (split 0x000A content))"

section \<open>The topic queue of the research pipeline\<close>

text \<open>
  The queue lives in the backend (\<open>src/agents/research/data_structures.py\<close>), whose
  code is missing from the frontend sources embedded above; the frontend only sees
  the queue's statistics. The definitions of this section follow the specification's
  data model.
\<close>

datatype TopicStatus = topic_pending | topic_researching | topic_completed | topic_failed

datatype ToolType =
  stock_price | financials | technical_indicators | news | web_search | rag_search | youtube

record ToolTrace =
  tool_type :: ToolType
  input_params :: "(string \<times> string) list"
  raw_output :: string
  citation_id :: nat
  timestamp :: string

record TopicBlock =
  block_topic :: string
  block_status :: TopicStatus
  block_notes :: "string list"
  block_tool_traces :: "ToolTrace list"

type_synonym TopicQueue = "TopicBlock list"

text \<open>
  Modelled from the spec: the block that an insertion adds to a \<open>TopicQueue\<close> (the
  queue's own code is missing): the topic text, status \<open>pending\<close>, no notes and no tool
  traces yet.
\<close>

definition new_block :: "string \<Rightarrow> TopicBlock" where
  "new_block t = \<lparr>block_topic = t, block_status = topic_pending, block_notes = [], block_tool_traces = []\<rparr>"

text \<open>
  Modelled from the spec: insertion into a \<open>TopicQueue\<close> (the queue's own code is
  missing). The spec fixes the rule, not the normalisation: "topic text
  (case/whitespace-normalized) is unique within a queue; inserting a duplicate is a
  no-op, not an error". The normalisation is the parameter \<open>norm\<close>; a topic whose
  normal form is already in the queue leaves the queue as it is, any other topic is
  appended as a new block.
\<close>

definition insert_topic :: "(string \<Rightarrow> string) \<Rightarrow> string \<Rightarrow> TopicQueue \<Rightarrow> TopicQueue" where
  "insert_topic norm t q =
     (if norm t \<in> set (map (\<lambda>b. norm (block_topic b)) q) then q else q @ [new_block t])"

text \<open>
  Modelled from the spec: the invariant of a \<open>TopicQueue\<close>, "topic text
  (case/whitespace-normalized) is unique within a queue".
\<close>

definition unique_topics :: "(string \<Rightarrow> string) \<Rightarrow> TopicQueue \<Rightarrow> bool" where
  "unique_topics norm q \<longleftrightarrow> distinct (map (\<lambda>b. norm (block_topic b)) q)"

text \<open>
  Modelled from the spec: one case/whitespace normalisation, for running the queue on
  sample topics: ASCII capitals become small letters, and blanks, tabs and line breaks
  at both ends are dropped.
\<close>

definition lower_char :: "char \<Rightarrow> char" where
  "lower_char c =
     (if (65::nat) \<le> of_char c \<and> of_char c \<le> (90::nat) then char_of (of_char c + (32::nat)) else c)"

definition is_blank :: "char \<Rightarrow> bool" where
  "is_blank c \<longleftrightarrow> of_char c \<in> {9::nat, 10, 11, 12, 13, 32}"

definition normalize_topic :: "string \<Rightarrow> string" where
  "normalize_topic t = map lower_char (rev (dropWhile is_blank (rev (dropWhile is_blank t))))"

section \<open>Sample inputs\<close>

text \<open>A running job without a result yet, and a detail page showing it on an open socket.\<close>

definition example_snapshot :: ResearchStatusResponse where
  "example_snapshot =
     \<lparr>research_id = of_ascii ''r-1'', status = running, topic = of_ascii ''AAPL quick check'',
      created_at = of_ascii ''2026-01-20T09:00:00'',
      started_at = Some (of_ascii ''2026-01-20T09:00:01''),
      completed_at = None, current_stage = Some (of_ascii ''research''), progress = None,
      error = None, result = None\<rparr>"

definition example_state :: DetailState where
  "example_state =
     \<lparr>research = Some example_snapshot, loading = False, pageError = None,
      wsConnected = True, readyState = OPEN, console = []\<rparr>"

section \<open>Status labels are total\<close>

text \<open>
  C7. For each of the five values of \<open>ResearchStatus\<close>, the label function of the
  list page and the table lookup of \<open>StatusBadge\<close> are both defined, and the label
  each returns is not empty.
\<close>

theorem status_labels_total:
  "(\<exists>l. getStatusLabel st = Some l \<and> l \<noteq> [])
   \<and> (\<exists>b. StatusBadge st = Some b \<and> label b \<noteq> [])"
  by (cases st) (simp_all add: getStatusLabel_def labels_def StatusBadge_def config_def)

section \<open>The message handler of the detail page\<close>

lemma ws_close_not_open: "ws_close rs \<noteq> OPEN"
  by (cases rs) simp_all

lemma deliver_closed: "readyState st \<noteq> OPEN \<Longrightarrow> foldl deliver st ms = st"
  by (induction ms) (simp_all add: deliver_def)

text \<open>
  C9. A \<open>heartbeat\<close> event leaves the whole state of the page as it was: the job
  snapshot, the error message, the connection flag, the socket and the console,
  whether the handler is called directly or through the browser's delivery.
\<close>

theorem heartbeat_no_effect:
  "onmessage (Some WSHeartbeatEvent) st = st \<and> deliver st (Some WSHeartbeatEvent) = st"
  by (simp add: deliver_def)

text \<open>
  C5. The event types are exactly \<open>connected\<close>, \<open>current_state\<close>, \<open>update\<close>,
  \<open>heartbeat\<close>, \<open>final\<close> and \<open>error\<close>, and the handler treats each of them:
  \<open>connected\<close> is logged, \<open>current_state\<close> and \<open>update\<close> replace the snapshot by
  the payload, \<open>heartbeat\<close> does nothing, \<open>final\<close> writes status, result and error
  into the snapshot and closes the socket, \<open>error\<close> sets the page's error message.
\<close>

theorem ws_event_types_handled:
  "range ws_type
     = {''connected'', ''current_state'', ''update'', ''heartbeat'', ''final'', ''error''}
   \<and> onmessage (Some (WSConnectedEvent rid)) st
       = st\<lparr>console := console st @ [LogConnected rid]\<rparr>
   \<and> onmessage (Some (WSCurrentStateEvent (Some d))) st = st\<lparr>research := Some d\<rparr>
   \<and> onmessage (Some (WSUpdateEvent (Some d))) st = st\<lparr>research := Some d\<rparr>
   \<and> onmessage (Some WSHeartbeatEvent) st = st
   \<and> onmessage (Some (WSFinalEvent s r e)) (st\<lparr>research := Some prev\<rparr>)
       = st\<lparr>research := Some (prev\<lparr>status := s, result := r, error := e\<rparr>),
            readyState := ws_close (readyState st)\<rparr>
   \<and> ws_close (readyState st) \<noteq> OPEN
   \<and> onmessage (Some (WSErrorEvent m)) st = st\<lparr>pageError := Some m\<rparr>"
proof -
  let ?names = "{''connected'', ''current_state'', ''update'', ''heartbeat'', ''final'', ''error''}"
  have "range ws_type = ?names"
  proof
    show "range ws_type \<subseteq> ?names"
    proof
      fix x assume "x \<in> range ws_type"
      then obtain ev where "x = ws_type ev" by blast
      then show "x \<in> ?names" by (cases ev) simp_all
    qed
  next
    have "ws_type (WSConnectedEvent []) \<in> range ws_type"
      "ws_type (WSCurrentStateEvent None) \<in> range ws_type"
      "ws_type (WSUpdateEvent None) \<in> range ws_type"
      "ws_type WSHeartbeatEvent \<in> range ws_type"
      "ws_type (WSFinalEvent failed None None) \<in> range ws_type"
      "ws_type (WSErrorEvent []) \<in> range ws_type"
      by (rule rangeI)+
    then show "?names \<subseteq> range ws_type" by simp
  qed
  then show ?thesis by (simp add: ws_close_not_open)
qed

text \<open>
  C2. When a \<open>final\<close> event arrives while a snapshot is present, the handler
  replaces the status, result and error of the snapshot by those of the event,
  leaves every other field and every other cell of the page as it was, and closes
  the socket; whatever arrives on that socket afterwards changes nothing.
\<close>

theorem final_event_updates_and_closes:
  assumes "research st = Some prev"
  shows "onmessage (Some (WSFinalEvent s r e)) st
           = st\<lparr>research := Some (prev\<lparr>status := s, result := r, error := e\<rparr>),
                readyState := ws_close (readyState st)\<rparr>
         \<and> readyState (onmessage (Some (WSFinalEvent s r e)) st) \<noteq> OPEN
         \<and> foldl deliver (onmessage (Some (WSFinalEvent s r e)) st) ms
             = onmessage (Some (WSFinalEvent s r e)) st"
proof -
  let ?st' = "onmessage (Some (WSFinalEvent s r e)) st"
  have closed: "readyState ?st' \<noteq> OPEN" by (simp add: ws_close_not_open)
  have "foldl deliver ?st' ms = ?st'" using closed by (rule deliver_closed)
  with closed assms show ?thesis by simp
qed

theorem final_event_updates_and_closes_witness:
  "research example_state = Some example_snapshot
   \<and> research (onmessage (Some (WSFinalEvent failed None (Some (of_ascii ''boom''))))
                 example_state)
       = Some (example_snapshot\<lparr>status := failed, result := None,
                 error := Some (of_ascii ''boom'')\<rparr>)
   \<and> readyState (onmessage (Some (WSFinalEvent failed None (Some (of_ascii ''boom''))))
                   example_state) = CLOSING
   \<and> foldl deliver
        (onmessage (Some (WSFinalEvent failed None (Some (of_ascii ''boom'')))) example_state)
        [Some (WSErrorEvent (of_ascii ''late'')), Some (WSUpdateEvent (Some example_snapshot)),
         None]
       = onmessage (Some (WSFinalEvent failed None (Some (of_ascii ''boom'')))) example_state"
proof -
  have h: "research example_state = Some example_snapshot"
    by (simp add: example_state_def)
  show ?thesis
    using final_event_updates_and_closes [OF h, of failed None "Some (of_ascii ''boom'')"
        "[Some (WSErrorEvent (of_ascii ''late'')), Some (WSUpdateEvent (Some example_snapshot)),
          None]"]
    by (simp add: example_state_def)
qed

section \<open>What the detail page shows\<close>

text \<open>
  The claim C1 as stated fails for a failed job whose error is the empty string:
  the guard \<open>error && status === 'failed'\<close> is false there, and the panel shows no
  error block at all.
\<close>

theorem failed_empty_error_not_rendered:
  "ResearchDetailPage
     (example_state\<lparr>research := Some (example_snapshot\<lparr>status := failed, error := Some []\<rparr>)\<rparr>)
     = ResearchView
         \<lparr>heading = of_ascii ''AAPL quick check'',
          idBadge = of_ascii ''r-1'',
          liveIndicator = True,
          cancelButton = False,
          errorBanner = None,
          stageCard = of_ascii ''research'',
          progressPanel = \<lparr>badge = StatusBadge failed, errorMessage = None\<rparr>,
          reportPanel = NotGeneratedPlaceholder\<rparr>"
  by (simp add: ResearchDetailPage_def example_state_def example_snapshot_def
        ResearchProgress_component_def isActive_def truthy_def of_ascii_def)

text \<open>
  C1, amended. For every snapshot the page renders: if the status is \<open>failed\<close> and
  the error is a non-empty string, the progress panel shows that string unchanged;
  and if the result is null while the status is \<open>pending\<close> or \<open>running\<close>, the report
  column shows the in-progress placeholder and the progress panel shows no error.
\<close>

theorem error_and_placeholder_rendering:
  assumes "research st = Some r"
  shows "(status r = failed \<and> error r = Some e \<and> e \<noteq> [] \<longrightarrow>
            (\<exists>v. ResearchDetailPage st = ResearchView v
                 \<and> errorMessage (progressPanel v) = Some e))
         \<and> (result r = None \<and> (status r = pending \<or> status r = running) \<longrightarrow>
            (\<exists>v. ResearchDetailPage st = ResearchView v
                 \<and> reportPanel v
                     = InProgressPlaceholder
                         (or_else (current_stage r) [0xCD08, 0xAE30, 0xD654, 0x0020, 0xC911])
                 \<and> errorMessage (progressPanel v) = None))"
  using assms
  by (auto simp add: ResearchDetailPage_def ResearchProgress_component_def isActive_def
        truthy_def)

theorem error_and_placeholder_rendering_witness:
  "(\<exists>v. ResearchDetailPage
           (example_state\<lparr>research := Some (example_snapshot\<lparr>status := failed,
               error := Some (of_ascii ''LLM call failed'')\<rparr>)\<rparr>) = ResearchView v
        \<and> errorMessage (progressPanel v) = Some (of_ascii ''LLM call failed''))
   \<and> (\<exists>v. ResearchDetailPage example_state = ResearchView v
        \<and> reportPanel v = InProgressPlaceholder (of_ascii ''research'')
        \<and> errorMessage (progressPanel v) = None)"
proof -
  let ?r1 = "example_snapshot\<lparr>status := failed, error := Some (of_ascii ''LLM call failed'')\<rparr>"
  let ?st1 = "example_state\<lparr>research := Some ?r1\<rparr>"
  have h1: "research ?st1 = Some ?r1" by simp
  have h2: "research example_state = Some example_snapshot"
    by (simp add: example_state_def)
  have a1: "status ?r1 = failed \<and> error ?r1 = Some (of_ascii ''LLM call failed'')
            \<and> of_ascii ''LLM call failed'' \<noteq> []"
    by (simp add: of_ascii_def)
  have a2: "result example_snapshot = None
            \<and> (status example_snapshot = pending \<or> status example_snapshot = running)"
    by (simp add: example_snapshot_def)
  have s: "or_else (current_stage example_snapshot) [0xCD08, 0xAE30, 0xD654, 0x0020, 0xC911]
           = of_ascii ''research''"
    by (simp add: example_snapshot_def truthy_def of_ascii_def)
  from error_and_placeholder_rendering [OF h1, of "of_ascii ''LLM call failed''"] a1
  have c1: "\<exists>v. ResearchDetailPage ?st1 = ResearchView v
        \<and> errorMessage (progressPanel v) = Some (of_ascii ''LLM call failed'')"
    by blast
  from error_and_placeholder_rendering [OF h2, of "[]"] a2 s
  have c2: "\<exists>v. ResearchDetailPage example_state = ResearchView v
        \<and> reportPanel v = InProgressPlaceholder (of_ascii ''research'')
        \<and> errorMessage (progressPanel v) = None"
    by simp
  from c1 c2 show ?thesis by blast
qed

section \<open>The new-research form\<close>

lemma dropWhile_all: "list_all P xs \<Longrightarrow> dropWhile P xs = []"
  by (induction xs) simp_all

lemma trim_whitespace_only: "list_all isWhiteSpace s \<Longrightarrow> trim s = []"
  by (simp add: trim_def dropWhile_all)

text \<open>
  C6. When every code unit of the topic is white space (the empty topic included),
  \<open>handleSubmit\<close> returns without calling the API and without touching the state,
  and the submit button is disabled.
\<close>

theorem blank_topic_no_request:
  assumes "list_all isWhiteSpace (form_topic (formData st))"
  shows "handleSubmit st = (st, None) \<and> submit_disabled st"
  using trim_whitespace_only [OF assms]
  by (simp add: handleSubmit_def submit_disabled_def truthy_def)

theorem blank_topic_no_request_witness:
  "list_all isWhiteSpace
     (form_topic (formData (page_step (initial_state None None)
        (ChangeTopic [0x0020, 0x0009, 0x3000]))))
   \<and> handleSubmit (page_step (initial_state None None) (ChangeTopic [0x0020, 0x0009, 0x3000]))
       = (page_step (initial_state None None) (ChangeTopic [0x0020, 0x0009, 0x3000]), None)
   \<and> submit_disabled
       (page_step (initial_state None None) (ChangeTopic [0x0020, 0x0009, 0x3000]))"
proof -
  have h: "list_all isWhiteSpace
     (form_topic (formData (page_step (initial_state None None)
        (ChangeTopic [0x0020, 0x0009, 0x3000]))))"
    by (simp add: isWhiteSpace_def)
  from blank_topic_no_request [OF h] h show ?thesis by simp
qed

text \<open>
  The claim C3 as stated fails: the form opened for the symbol AAPL and submitted
  as it is sends a body with a sixth field, \<open>language\<close>.
\<close>

theorem request_body_has_language:
  "snd (handleSubmit (initial_state (Some (of_ascii ''AAPL'')) None))
     = Some [(''topic'', JString (of_ascii ''AAPL''
                @ [0x0020, 0xC885, 0xBAA9, 0x0020, 0xBD84, 0xC11D, 0x0020, 0xBC0F, 0x0020,
                   0xD22C, 0xC790, 0x0020, 0xC804, 0xB9DD])),
             (''symbols'', JArray [JString (of_ascii ''AAPL'')]),
             (''market'', JString (of_ascii ''US'')),
             (''context'', JString []),
             (''max_topics'', JNumber 10),
             (''language'', JString (of_ascii ''ko''))]"
  by (simp add: handleSubmit_def initial_state_def initialSymbol_def initialMarket_def
        spread_formData_def submitted_symbols_def trim_def isWhiteSpace_def truthy_def
        of_ascii_def)

text \<open>
  C3, amended. Every request the form sends has exactly the fields \<open>topic\<close>,
  \<open>symbols\<close>, \<open>market\<close>, \<open>context\<close>, \<open>max_topics\<close> and \<open>language\<close>, in this order,
  and its topic is the form's topic, which is not blank.
\<close>

theorem request_body_fields:
  assumes "snd (handleSubmit st) = Some body"
  shows "map fst body
           = [''topic'', ''symbols'', ''market'', ''context'', ''max_topics'', ''language'']
         \<and> map_of body ''topic'' = Some (JString (form_topic (formData st)))
         \<and> trim (form_topic (formData st)) \<noteq> []"
  using assms
  by (auto simp add: handleSubmit_def spread_formData_def truthy_def split: if_splits)

theorem request_body_fields_witness:
  "map fst (obj_set ''symbols'' (JArray [JString (of_ascii ''MSFT'')])
       (spread_formData (formData (initial_state (Some (of_ascii ''MSFT'')) None))))
     = [''topic'', ''symbols'', ''market'', ''context'', ''max_topics'', ''language'']
   \<and> trim (form_topic (formData (initial_state (Some (of_ascii ''MSFT'')) None))) \<noteq> []"
proof -
  let ?st = "initial_state (Some (of_ascii ''MSFT'')) None"
  have h: "snd (handleSubmit ?st)
             = Some (obj_set ''symbols'' (JArray [JString (of_ascii ''MSFT'')])
                       (spread_formData (formData ?st)))"
    by (simp add: handleSubmit_def initial_state_def initialSymbol_def initialMarket_def
          submitted_symbols_def trim_def isWhiteSpace_def truthy_def of_ascii_def)
  from request_body_fields [OF h] show ?thesis by simp
qed

lemma max_topics_step:
  "3 \<le> max_topics (formData st) \<and> max_topics (formData st) \<le> 20 \<Longrightarrow>
   3 \<le> max_topics (formData (page_step st ev))
   \<and> max_topics (formData (page_step st ev)) \<le> 20"
  by (cases ev) (auto simp add: range_input_def handleSubmit_def)

lemma max_topics_reachable:
  "3 \<le> max_topics (formData st) \<and> max_topics (formData st) \<le> 20 \<Longrightarrow>
   3 \<le> max_topics (formData (foldl page_step st evs))
   \<and> max_topics (formData (foldl page_step st evs)) \<le> 20"
proof (induction evs arbitrary: st)
  case Nil
  then show ?case by simp
next
  case (Cons ev evs)
  from max_topics_step [OF Cons.prems]
  have "3 \<le> max_topics (formData (page_step st ev))
        \<and> max_topics (formData (page_step st ev)) \<le> 20" .
  from Cons.IH [OF this] show ?case by simp
qed

text \<open>
  C4. The form starts with \<open>max_topics = 10\<close>; moving the range control always
  leaves a value between 3 and 20; and whatever the user does with the form before
  submitting, the request that is sent carries a \<open>max_topics\<close> between 3 and 20.
\<close>

theorem max_topics_in_range:
  assumes "snd (handleSubmit (foldl page_step (initial_state symbolParam marketParam) evs))
             = Some body"
  shows "max_topics (formData (initial_state symbolParam marketParam)) = 10
         \<and> 3 \<le> max_topics (formData (page_step st (ChangeMaxTopics v)))
         \<and> max_topics (formData (page_step st (ChangeMaxTopics v))) \<le> 20
         \<and> (\<exists>n. map_of body ''max_topics'' = Some (JNumber n) \<and> 3 \<le> n \<and> n \<le> 20)"
proof -
  let ?init = "initial_state symbolParam marketParam"
  let ?st = "foldl page_step ?init evs"
  have init: "max_topics (formData ?init) = 10"
    by (simp add: initial_state_def)
  then have "3 \<le> max_topics (formData ?init) \<and> max_topics (formData ?init) \<le> 20"
    by simp
  from max_topics_reachable [OF this]
  have r: "3 \<le> max_topics (formData ?st) \<and> max_topics (formData ?st) \<le> 20" .
  from assms have "map_of body ''max_topics'' = Some (JNumber (max_topics (formData ?st)))"
    by (auto simp add: handleSubmit_def spread_formData_def split: if_splits)
  with r init show ?thesis by (simp add: range_input_def)
qed

theorem max_topics_in_range_witness:
  "max_topics (formData (initial_state None (Some (of_ascii ''KR'')))) = 10
   \<and> max_topics (formData (page_step (initial_state None None) (ChangeMaxTopics 1))) = 3
   \<and> (\<exists>n. map_of
             (obj_set ''symbols'' (JArray [])
                (spread_formData (formData (foldl page_step
                   (initial_state None (Some (of_ascii ''KR'')))
                   [ChangeTopic (of_ascii ''chip outlook''), ChangeMaxTopics 50]))))
             ''max_topics'' = Some (JNumber n) \<and> 3 \<le> n \<and> n \<le> 20)"
proof -
  let ?evs = "[ChangeTopic (of_ascii ''chip outlook''), ChangeMaxTopics 50]"
  let ?st = "foldl page_step (initial_state None (Some (of_ascii ''KR''))) ?evs"
  have h: "snd (handleSubmit ?st)
             = Some (obj_set ''symbols'' (JArray []) (spread_formData (formData ?st)))"
    by (simp add: handleSubmit_def initial_state_def initialSymbol_def initialMarket_def
          submitted_symbols_def trim_def isWhiteSpace_def truthy_def of_ascii_def)
  have v: "max_topics (formData (page_step (initial_state None None) (ChangeMaxTopics 1))) = 3"
    by (simp add: range_input_def)
  from max_topics_in_range [OF h, of "initial_state None None" 1] v show ?thesis by simp
qed

section \<open>Code fences in the Markdown renderer\<close>

lemma forEach_line_append:
  "forEach_line st i (xs @ ys) = forEach_line (forEach_line st i xs) (i + length xs) ys"
  by (induction xs arbitrary: st i) simp_all

lemma inCodeBlock_render_line:
  "inCodeBlock (render_line st line i) = (inCodeBlock st \<noteq> isFence line)"
  by (simp add: render_line_def push_def split: option.splits)

lemma inCodeBlock_forEach_line:
  "inCodeBlock (forEach_line st i ls) = (inCodeBlock st \<noteq> odd (length (filter isFence ls)))"
  by (induction ls arbitrary: st i) (auto simp add: inCodeBlock_render_line)

lemma codeContent_render_line:
  "(inCodeBlock st \<or> codeContent st = []) \<Longrightarrow>
   inCodeBlock (render_line st line i) \<or> codeContent (render_line st line i) = []"
  by (auto simp add: render_line_def push_def split: option.splits)

lemma codeContent_forEach_line:
  "(inCodeBlock st \<or> codeContent st = []) \<Longrightarrow>
   inCodeBlock (forEach_line st i ls) \<or> codeContent (forEach_line st i ls) = []"
proof (induction ls arbitrary: st i)
  case Nil
  then show ?case by simp
next
  case (Cons l ls)
  from codeContent_render_line [OF Cons.prems]
  have "inCodeBlock (render_line st l i) \<or> codeContent (render_line st l i) = []" .
  from Cons.IH [OF this] show ?case by simp
qed

lemma forEach_line_in_code:
  "inCodeBlock st \<Longrightarrow> list_all (\<lambda>l. \<not> isFence l) ls \<Longrightarrow>
   forEach_line st i ls = st\<lparr>codeContent := codeContent st @ ls\<rparr>"
proof (induction ls arbitrary: st i)
  case Nil
  then show ?case by simp
next
  case (Cons l ls)
  from Cons.prems have step: "render_line st l i = st\<lparr>codeContent := codeContent st @ [l]\<rparr>"
    by (simp add: render_line_def)
  from Cons.prems have "list_all (\<lambda>l. \<not> isFence l) ls" by simp
  moreover from Cons.prems have "inCodeBlock (st\<lparr>codeContent := codeContent st @ [l]\<rparr>)" by simp
  ultimately have "forEach_line (st\<lparr>codeContent := codeContent st @ [l]\<rparr>) (Suc i) ls
      = st\<lparr>codeContent := codeContent st @ [l]\<rparr>\<lparr>codeContent := codeContent (st\<lparr>codeContent := codeContent st @ [l]\<rparr>) @ ls\<rparr>"
    using Cons.IH by blast
  with step show ?case by simp
qed

text \<open>
  C10. When the line \<open>k\<close> of a report opens a code fence (it starts with three
  backquotes and an even number of fence lines precede it) and no later line starts
  with three backquotes, the renderer returns exactly what the lines before \<open>k\<close>
  produced: the lines after the fence are collected in \<open>codeContent\<close> and never
  become an element.
\<close>

theorem unclosed_fence_drops_rest:
  assumes "k < length (split 0x000A content)"
    and "isFence (split 0x000A content ! k)"
    and "even (length (filter isFence (take k (split 0x000A content))))"
    and "list_all (\<lambda>l. \<not> isFence l) (drop (Suc k) (split 0x000A content))"
  shows "MarkdownRenderer content
           = elements (forEach_line initial_render 0 (take k (split 0x000A content)))
         \<and> inCodeBlock (forEach_line initial_render 0 (split 0x000A content))
         \<and> codeContent (forEach_line initial_render 0 (split 0x000A content))
             = drop (Suc k) (split 0x000A content)"
proof -
  let ?ls = "split 0x000A content"
  let ?s1 = "forEach_line initial_render 0 (take k ?ls)"
  let ?s2 = "render_line ?s1 (?ls ! k) k"
  have decomp: "?ls = take k ?ls @ [?ls ! k] @ drop (Suc k) ?ls"
    using assms(1) by (simp add: id_take_nth_drop [symmetric])
  have len: "length (take k ?ls) = k" using assms(1) by simp
  have out: "\<not> inCodeBlock ?s1"
    using assms(3) by (simp add: inCodeBlock_forEach_line initial_render_def)
  have "inCodeBlock initial_render \<or> codeContent initial_render = []"
    by (simp add: initial_render_def)
  from codeContent_forEach_line [OF this] out have empty: "codeContent ?s1 = []" by blast
  have s2: "?s2 = ?s1\<lparr>inCodeBlock := True, codeLanguage := slice (?ls ! k) 3\<rparr>"
    using out assms(2) by (simp add: render_line_def)
  have "forEach_line initial_render 0 ?ls
          = forEach_line ?s1 k ([?ls ! k] @ drop (Suc k) ?ls)"
    using forEach_line_append [of initial_render 0 "take k ?ls" "[?ls ! k] @ drop (Suc k) ?ls"] decomp len
    by simp
  also have "\<dots> = forEach_line ?s2 (Suc k) (drop (Suc k) ?ls)" by simp
  also have "\<dots> = ?s2\<lparr>codeContent := codeContent ?s2 @ drop (Suc k) ?ls\<rparr>"
    using assms(4) s2 by (intro forEach_line_in_code) simp_all
  finally have final: "forEach_line initial_render 0 ?ls
      = ?s1\<lparr>inCodeBlock := True, codeLanguage := slice (?ls ! k) 3, codeContent := drop (Suc k) ?ls\<rparr>"
    using s2 empty by simp
  show ?thesis unfolding MarkdownRenderer_def by (simp add: final)
qed

theorem unclosed_fence_drops_rest_witness:
  "MarkdownRenderer
     (of_ascii ''a'' @ [0x000A] @ of_ascii ''```js'' @ [0x000A] @ of_ascii ''x = 1''
        @ [0x000A] @ of_ascii ''# not a heading'')
     = [Para 0 (of_ascii ''a'')]
   \<and> codeContent (forEach_line initial_render 0 (split 0x000A
        (of_ascii ''a'' @ [0x000A] @ of_ascii ''```js'' @ [0x000A] @ of_ascii ''x = 1''
           @ [0x000A] @ of_ascii ''# not a heading'')))
     = [of_ascii ''x = 1'', of_ascii ''# not a heading'']"
proof -
  let ?content = "of_ascii ''a'' @ [0x000A] @ of_ascii ''```js'' @ [0x000A] @ of_ascii ''x = 1''
        @ [0x000A] @ of_ascii ''# not a heading''"
  have sp: "split 0x000A ?content
              = [of_ascii ''a'', of_ascii ''```js'', of_ascii ''x = 1'', of_ascii ''# not a heading'']"
    by (simp add: of_ascii_def)
  have h1: "1 < length (split 0x000A ?content)"
    unfolding sp by simp
  have h2: "isFence (split 0x000A ?content ! 1)"
    unfolding sp by (simp add: isFence_def startsWith_def of_ascii_def)
  have h3: "even (length (filter isFence (take 1 (split 0x000A ?content))))"
    unfolding sp by (simp add: isFence_def startsWith_def of_ascii_def)
  have h4: "list_all (\<lambda>l. \<not> isFence l) (drop (Suc 1) (split 0x000A ?content))"
    unfolding sp by (simp add: isFence_def startsWith_def of_ascii_def)
  have pre: "elements (forEach_line initial_render 0 (take 1 (split 0x000A ?content)))
               = [Para 0 (of_ascii ''a'')]"
    unfolding sp
    by (simp add: initial_render_def render_line_def push_def isFence_def startsWith_def
          numberedMatch_def isDigit_def trim_def isWhiteSpace_def renderInlineMarkdown_def
          of_ascii_def)
  have post: "drop (Suc 1) (split 0x000A ?content)
                = [of_ascii ''x = 1'', of_ascii ''# not a heading'']"
    unfolding sp by simp
  from unclosed_fence_drops_rest [OF h1 h2 h3 h4] pre post show ?thesis by simp
qed

section \<open>Insertion into the topic queue\<close>

lemma unique_topics_empty: "unique_topics norm []"
  by (simp add: unique_topics_def)

lemma unique_topics_insert:
  "unique_topics norm q \<Longrightarrow> unique_topics norm (insert_topic norm t q)"
  by (simp add: unique_topics_def insert_topic_def new_block_def)

lemma unique_topics_built:
  "unique_topics norm (foldl (\<lambda>q t. insert_topic norm t q) [] ts)"
proof -
  have "unique_topics norm q \<Longrightarrow> unique_topics norm (foldl (\<lambda>q t. insert_topic norm t q) q ts)" for q
    by (induction ts arbitrary: q) (simp_all add: unique_topics_insert)
  from this [OF unique_topics_empty] show ?thesis .
qed

lemma present_after_insert:
  "norm t \<in> set (map (\<lambda>b. norm (block_topic b)) (insert_topic norm t q))"
  by (simp add: insert_topic_def new_block_def)

lemma distinct_count_one:
  "distinct (map f xs) \<Longrightarrow> v \<in> set (map f xs) \<Longrightarrow> length (filter (\<lambda>x. f x = v) xs) = 1"
proof (induction xs)
  case Nil
  then show ?case by simp
next
  case (Cons x xs)
  show ?case
  proof (cases "f x = v")
    case True
    with Cons.prems have "v \<notin> f ` set xs" by auto
    then have "filter (\<lambda>y. f y = v) xs = []" by (auto simp add: filter_empty_conv)
    with True show ?thesis by simp
  next
    case False
    with Cons show ?thesis by auto
  qed
qed

text \<open>
  C8. In a queue whose normalised topics are pairwise different, inserting a topic
  and then a topic with the same normal form leaves exactly one block with that
  normal form: the second insertion returns the queue unchanged, and the normalised
  topics are still pairwise different after each of the two insertions. Every queue
  built from the empty one by insertions is such a queue (\<open>unique_topics_built\<close>).
\<close>

theorem duplicate_topic_is_noop:
  assumes "unique_topics norm q" and "norm t' = norm t"
  shows "insert_topic norm t' (insert_topic norm t q) = insert_topic norm t q
         \<and> length (filter (\<lambda>b. norm (block_topic b) = norm t)
                     (insert_topic norm t' (insert_topic norm t q))) = 1
         \<and> unique_topics norm (insert_topic norm t q)
         \<and> unique_topics norm (insert_topic norm t' (insert_topic norm t q))"
proof -
  let ?q1 = "insert_topic norm t q"
  have inv1: "unique_topics norm ?q1" using assms(1) by (rule unique_topics_insert)
  have there: "norm t' \<in> set (map (\<lambda>b. norm (block_topic b)) ?q1)"
    using present_after_insert [of norm t q] assms(2) by simp
  then have noop: "insert_topic norm t' ?q1 = ?q1" by (simp add: insert_topic_def)
  have "length (filter (\<lambda>b. norm (block_topic b) = norm t) ?q1) = 1"
    using inv1 present_after_insert [of norm t q]
    unfolding unique_topics_def by (rule distinct_count_one)
  with noop inv1 show ?thesis by simp
qed

theorem duplicate_topic_is_noop_witness:
  "unique_topics normalize_topic [new_block ''Valuation'']
   \<and> normalize_topic ''apple revenue'' = normalize_topic ''  Apple Revenue ''
   \<and> insert_topic normalize_topic ''apple revenue''
       (insert_topic normalize_topic ''  Apple Revenue '' [new_block ''Valuation''])
       = [new_block ''Valuation'', new_block ''  Apple Revenue '']
   \<and> length (filter (\<lambda>b. normalize_topic (block_topic b) = normalize_topic ''  Apple Revenue '')
       (insert_topic normalize_topic ''apple revenue''
          (insert_topic normalize_topic ''  Apple Revenue '' [new_block ''Valuation'']))) = 1"
proof -
  have n1: "normalize_topic ''  Apple Revenue '' = ''apple revenue''"
    by code_simp
  have n2: "normalize_topic ''apple revenue'' = ''apple revenue''"
    by code_simp
  have n3: "normalize_topic ''Valuation'' = ''valuation''"
    by code_simp
  have h1: "unique_topics normalize_topic [new_block ''Valuation'']"
    by (simp add: unique_topics_def)
  have h2: "normalize_topic ''apple revenue'' = normalize_topic ''  Apple Revenue ''"
    by (simp add: n1 n2)
  have q1: "insert_topic normalize_topic ''  Apple Revenue '' [new_block ''Valuation'']
              = [new_block ''Valuation'', new_block ''  Apple Revenue '']"
    by (simp add: insert_topic_def new_block_def n1 n3)
  note r = duplicate_topic_is_noop [OF h1 h2, unfolded q1]
  from r h1 h2 show ?thesis unfolding q1 by blast
qed

end
